theory Spec2Isabelle
  imports Complex_Main "HOL-Library.AList"
begin

section \<open>Numbers\<close>

text \<open>
  The scorer works on Python floats and rounds them with the built-in \<open>round\<close>.
  Floats are modelled as exact real numbers: every constant of the source (\<open>0.35\<close>,
  \<open>0.6\<close>, ...) is the decimal fraction it is written as, and \<open>+\<close>, \<open>*\<close>, \<open>/\<close>
  are exact. Python 3's \<open>round(x)\<close> with one argument returns the nearest integer
  and, when \<open>x\<close> lies exactly halfway between two integers, the even one.
\<close>

definition py_round :: "real \<Rightarrow> int" where
  "py_round x =
     (let f = \<lfloor>x\<rfloor>; d = x - of_int f
      in if d < 1 / 2 then f
         else if 1 / 2 < d then f + 1
         else if even f then f else f + 1)"

text \<open>\<open>min(100, max(0, r))\<close>, the last step of every score function.\<close>

definition clamp_score :: "int \<Rightarrow> int" where
  "clamp_score r = min 100 (max 0 r)"

section \<open>Configuration (config.py)\<close>

definition SAFE_THRESHOLD :: int where
  "SAFE_THRESHOLD = 30"

definition SUSPICIOUS_THRESHOLD :: int where
  "SUSPICIOUS_THRESHOLD = 60"

section \<open>The overall score (scorer.py)\<close>

record weights =
  w_domain :: real
  w_structural :: real
  w_language :: real
  w_api :: real

definition WEIGHTS_FULL :: weights where
  "WEIGHTS_FULL =
     \<lparr>w_domain = 35 / 100, w_structural = 25 / 100, w_language = 20 / 100, w_api = 20 / 100\<rparr>"

definition WEIGHTS_NO_API :: weights where
  "WEIGHTS_NO_API =
     \<lparr>w_domain = 44 / 100, w_structural = 31 / 100, w_language = 25 / 100, w_api = 0\<rparr>"

definition classify_label :: "int \<Rightarrow> string" where
  "classify_label score =
     (if score \<le> SAFE_THRESHOLD then ''safe''
      else if score \<le> SUSPICIOUS_THRESHOLD then ''suspicious''
      else ''dangerous'')"

text \<open>The weighted sum before rounding (the first assignment to \<open>overall\<close>).\<close>

definition overall_raw :: "int \<Rightarrow> int \<Rightarrow> int \<Rightarrow> int \<Rightarrow> bool \<Rightarrow> real" where
  "overall_raw domain_score structural_score language_score api_score api_available =
     (let ws = (if api_available then WEIGHTS_FULL else WEIGHTS_NO_API)
      in of_int domain_score * w_domain ws
         + of_int structural_score * w_structural ws
         + of_int language_score * w_language ws
         + of_int api_score * w_api ws)"

definition compute_overall_score :: "int \<Rightarrow> int \<Rightarrow> int \<Rightarrow> int \<Rightarrow> bool \<Rightarrow> int \<times> string" where
  "compute_overall_score domain_score structural_score language_score api_score api_available =
     (let overall = clamp_score (py_round
            (overall_raw domain_score structural_score language_score api_score api_available))
      in (overall, classify_label overall))"

section \<open>The reputation sub-score (scorer.py)\<close>

text \<open>
  One result of a reputation feed, as \<open>api_checker.py\<close> builds it. The key
  \<open>unavailable\<close> is read with \<open>r.get("unavailable", True)\<close>, so a record without
  the key (\<open>None\<close> here) counts as unavailable.
\<close>

record api_result =
  api_name :: string
  is_threat :: bool
  confidence :: real
  unavailable :: "bool option"
  api_error :: "string option"

definition compute_api_score :: "api_result list \<Rightarrow> int \<times> bool" where
  "compute_api_score api_results =
     (let available_results =
            filter (\<lambda>r. \<not> (case unavailable r of None \<Rightarrow> True | Some u \<Rightarrow> u)) api_results
      in if available_results = [] then (0, False)
         else
           let threat_count = length (filter is_threat available_results);
               total_checked = length available_results;
               total_confidence = sum_list (map confidence (filter is_threat available_results))
           in if threat_count = 0 then (0, True)
              else
                let threat_ratio = (of_nat threat_count :: real) / of_nat total_checked;
                    score = threat_ratio * 60 + total_confidence / of_nat threat_count * 40
                in (clamp_score (py_round score), True))"

text \<open>The vocabulary of the specification: available feeds and threat hits among them.\<close>

definition feed_available :: "api_result \<Rightarrow> bool" where
  "feed_available r = (unavailable r = Some False)"

definition available_feeds :: "api_result list \<Rightarrow> api_result list" where
  "available_feeds rs = filter feed_available rs"


section \<open>Strings\<close>

text \<open>
  Python strings are modelled as lists of 8-bit characters, which is exact for ASCII
  text: \<open>lower\<close> is \<open>str.lower\<close>, \<open>contains s p\<close> is \<open>p in s\<close>,
  \<open>count_char\<close> is \<open>str.count\<close> of one character, \<open>split_on\<close> is \<open>str.split\<close>
  at one character, \<open>str_nat\<close> formats a number as an f-string does, \<open>join\<close> is
  \<open>sep.join\<close>, and \<open>after_last c s\<close> is the part of \<open>s\<close> behind its last \<open>c\<close>
  (all of \<open>s\<close> without one): \<open>s.rsplit(c, 1)[-1]\<close>.
\<close>

definition lower_char :: "char \<Rightarrow> char" where
  "lower_char c =
     (case map_of (zip ''ABCDEFGHIJKLMNOPQRSTUVWXYZ'' ''abcdefghijklmnopqrstuvwxyz'') c of
        Some d \<Rightarrow> d
      | None \<Rightarrow> c)"

definition lower :: "string \<Rightarrow> string" where
  "lower s = map lower_char s"

fun starts_with :: "string \<Rightarrow> string \<Rightarrow> bool" where
  "starts_with s [] = True"
| "starts_with [] (p # ps) = False"
| "starts_with (c # cs) (p # ps) = (c = p \<and> starts_with cs ps)"

fun contains :: "string \<Rightarrow> string \<Rightarrow> bool" where
  "contains [] p = (p = [])"
| "contains (c # cs) p = (starts_with (c # cs) p \<or> contains cs p)"

definition count_char :: "char \<Rightarrow> string \<Rightarrow> nat" where
  "count_char c s = length (filter (\<lambda>x. x = c) s)"

fun split_on :: "char \<Rightarrow> string \<Rightarrow> string list" where
  "split_on c [] = [[]]"
| "split_on c (x # xs) =
     (if x = c then [] # split_on c xs
      else (case split_on c xs of [] \<Rightarrow> [[x]] | p # ps \<Rightarrow> (x # p) # ps))"

fun str_nat :: "nat \<Rightarrow> string" where
  "str_nat n =
     (if n < 10 then [''0123456789'' ! n]
      else str_nat (n div 10) @ [''0123456789'' ! (n mod 10)])"

fun join :: "string \<Rightarrow> string list \<Rightarrow> string" where
  "join sep [] = []"
| "join sep [x] = x"
| "join sep (x # y # ys) = x @ sep @ join sep (y # ys)"

definition after_last :: "char \<Rightarrow> string \<Rightarrow> string" where
  "after_last c s = rev (takeWhile (\<lambda>x. x \<noteq> c) (rev s))"

definition is_ascii_alpha :: "char \<Rightarrow> bool" where
  "is_ascii_alpha c =
     (c \<in> set ''abcdefghijklmnopqrstuvwxyzABCDEFGHIJKLMNOPQRSTUVWXYZ'')"

definition is_digit :: "char \<Rightarrow> bool" where
  "is_digit c = (c \<in> set ''0123456789'')"

section \<open>URL heuristics (engine/heuristics.py)\<close>

record indicator =
  name :: string
  detected :: bool
  severity :: real
  explanation :: string

definition SUSPICIOUS_TLDS :: "string list" where
  "SUSPICIOUS_TLDS =
     [''.xyz'', ''.tk'', ''.ml'', ''.ga'', ''.cf'', ''.gq'', ''.top'', ''.buzz'',
      ''.club'', ''.work'', ''.info'', ''.click'', ''.link'', ''.support'',
      ''.review'', ''.country'', ''.stream'', ''.download'', ''.racing'',
      ''.win'', ''.bid'', ''.accountant'', ''.science'', ''.party'']"

definition SHORTENER_DOMAINS :: "string list" where
  "SHORTENER_DOMAINS =
     [''bit.ly'', ''tinyurl.com'', ''t.co'', ''goo.gl'', ''ow.ly'', ''is.gd'',
      ''buff.ly'', ''rebrand.ly'', ''cutt.ly'', ''short.io'', ''tiny.cc'']"

definition BRAND_TARGETS :: "(string \<times> string list) list" where
  "BRAND_TARGETS =
     [(''paypal'', [''paypa1'', ''paypol'', ''paypaI'', ''pay-pal'', ''paypall'', ''paypal-secure'']),
      (''google'', [''go0gle'', ''googl3'', ''g00gle'', ''goog1e'', ''google-verify'']),
      (''apple'', [''app1e'', ''appie'', ''apple-id'', ''appl3'']),
      (''microsoft'', [''micros0ft'', ''mlcrosoft'', ''microsft'', ''microsoft-verify'']),
      (''amazon'', [''amaz0n'', ''arnazon'', ''amazon-secure'', ''arnazon'']),
      (''netflix'', [''netf1ix'', ''netfllx'', ''netflix-account'']),
      (''facebook'', [''faceb00k'', ''facebok'', ''facebook-login'']),
      (''instagram'', [''1nstagram'', ''lnstagram'', ''instagram-verify'']),
      (''linkedin'', [''l1nkedin'', ''linkedln'', ''linkedin-verify'']),
      (''chase'', [''chas3'', ''chase-secure'', ''chase-verify'']),
      (''wellsfargo'', [''we11sfargo'', ''wellsfarg0'', ''wells-fargo-secure'']),
      (''bankofamerica'', [''bankofamer1ca'', ''bank0famerica''])]"

text \<open>
  \<open>urllib.parse.urlparse\<close> of the standard library, as far as the rules below read
  its result (\<open>scheme\<close>, \<open>hostname\<close>, \<open>path\<close>), for ASCII URLs whose network
  location has no square brackets (an IPv6 literal, which the library treats apart).
\<close>

record parse_result =
  scheme :: string
  netloc :: string
  path :: string

definition scheme_chars :: string where
  "scheme_chars = ''abcdefghijklmnopqrstuvwxyzABCDEFGHIJKLMNOPQRSTUVWXYZ0123456789+-.''"

definition uses_params :: "string list" where
  "uses_params =
     [[], ''ftp'', ''hdl'', ''prospero'', ''http'', ''imap'', ''https'', ''shttp'', ''rtsp'',
      ''rtsps'', ''rtspu'', ''sip'', ''sips'', ''mms'', ''sftp'', ''tel'']"

definition is_c0_control_or_space :: "char \<Rightarrow> bool" where
  "is_c0_control_or_space c = ((of_char c :: nat) \<le> 32)"

definition is_unsafe_url_byte :: "char \<Rightarrow> bool" where
  "is_unsafe_url_byte c = (c = CHR 0x09 \<or> c = CHR 0x0D \<or> c = CHR 0x0A)"

definition splitparams :: "string \<Rightarrow> string" where
  "splitparams url =
     (let last_segment = after_last CHR ''/'' url
      in take (length url - length last_segment) url
         @ takeWhile (\<lambda>c. c \<noteq> CHR '';'') last_segment)"

definition urlparse :: "string \<Rightarrow> parse_result" where
  "urlparse url0 =
     (let url1 = filter (\<lambda>c. \<not> is_unsafe_url_byte c) (dropWhile is_c0_control_or_space url0);
          pre = takeWhile (\<lambda>c. c \<noteq> CHR '':'') url1;
          has_scheme = (length pre < length url1 \<and> pre \<noteq> [] \<and> is_ascii_alpha (hd pre)
                        \<and> list_all (\<lambda>c. c \<in> set scheme_chars) pre);
          sch = (if has_scheme then lower pre else []);
          url2 = (if has_scheme then drop (length pre + 1) url1 else url1);
          has_netloc = (take 2 url2 = ''//'');
          loc = (if has_netloc then takeWhile (\<lambda>c. c \<notin> set ''/?#'') (drop 2 url2) else []);
          url3 = (if has_netloc then dropWhile (\<lambda>c. c \<notin> set ''/?#'') (drop 2 url2) else url2);
          url4 = takeWhile (\<lambda>c. c \<noteq> CHR ''#'') url3;
          url5 = takeWhile (\<lambda>c. c \<noteq> CHR ''?'') url4;
          pth = (if sch \<in> set uses_params \<and> CHR '';'' \<in> set url5 then splitparams url5 else url5)
      in \<lparr>scheme = sch, netloc = loc, path = pth\<rparr>)"

definition hostname_of :: "parse_result \<Rightarrow> string option" where
  "hostname_of parsed =
     (let hostinfo = after_last CHR ''@'' (netloc parsed);
          h = takeWhile (\<lambda>c. c \<noteq> CHR '':'') hostinfo
      in if h = [] then None
         else Some (lower (takeWhile (\<lambda>c. c \<noteq> CHR ''%'') h)
                    @ dropWhile (\<lambda>c. c \<noteq> CHR ''%'') h))"

text \<open>The hostname is four groups of one to three digits, separated by dots.\<close>

definition is_dotted_quad :: "string \<Rightarrow> bool" where
  "is_dotted_quad h =
     (let parts = split_on CHR ''.'' h
      in length parts = 4
         \<and> list_all (\<lambda>p. 1 \<le> length p \<and> length p \<le> 3 \<and> list_all is_digit p) parts)"

text \<open>
  The two nested loops over \<open>BRAND_TARGETS\<close>: the first brand, in the order of the
  table, one of whose variants occurs in the hostname while the brand does not, with
  the first such variant.
\<close>

fun brand_match :: "string \<Rightarrow> (string \<times> string list) list \<Rightarrow> (string \<times> string) option" where
  "brand_match h [] = None"
| "brand_match h ((brand, variants) # rest) =
     (case find (\<lambda>variant. contains (lower h) (lower variant) \<and> \<not> contains (lower h) brand)
             variants of
        Some variant \<Rightarrow> Some (brand, variant)
      | None \<Rightarrow> brand_match h rest)"

definition suspicious_paths :: "string list" where
  "suspicious_paths =
     [''login'', ''signin'', ''verify'', ''secure'', ''account'', ''banking'', ''update'',
      ''confirm'']"

text \<open>
  The rules run in the order of the source; \<open>ind1\<close> to \<open>ind10\<close> are the list
  \<open>indicators\<close> after each of them.
\<close>

definition analyze_url_heuristics :: "string \<Rightarrow> indicator list" where
  "analyze_url_heuristics url =
     (let parsed = urlparse url;
          hostname = (case hostname_of parsed of None \<Rightarrow> [] | Some h \<Rightarrow> h);
          pth = path parsed;
          ind1 =
            (if length url > 75
             then [\<lparr>name = ''Excessive URL Length'', detected = True,
                    severity = min 1 ((of_nat (length url) - 75) / 100),
                    explanation = ''This URL is '' @ str_nat (length url)
                      @ '' characters long. Legitimate URLs are typically shorter. Long URLs can hide malicious paths.''\<rparr>]
             else []);
          ind2 = ind1 @
            (if is_dotted_quad hostname
             then [\<lparr>name = ''IP Address Instead of Domain'', detected = True,
                    severity = 85 / 100,
                    explanation = ''This URL uses an IP address instead of a domain name. Legitimate websites almost always use domain names.''\<rparr>]
             else []);
          ind3 = ind2 @
            (if scheme parsed \<noteq> ''https''
             then [\<lparr>name = ''Missing HTTPS'', detected = True,
                    severity = 6 / 10,
                    explanation = ''This URL does not use HTTPS encryption. Most legitimate sites use HTTPS to protect your data.''\<rparr>]
             else []);
          tld = (if CHR ''.'' \<in> set hostname then CHR ''.'' # after_last CHR ''.'' hostname else []);
          ind4 = ind3 @
            (if lower tld \<in> set SUSPICIOUS_TLDS
             then [\<lparr>name = ''Suspicious Top-Level Domain'', detected = True,
                    severity = 7 / 10,
                    explanation = ''The domain uses '' @ [CHR 0x27] @ tld @ [CHR 0x27]
                      @ '' which is commonly associated with phishing and spam websites.''\<rparr>]
             else []);
          ind5 = ind4 @
            (if lower hostname \<in> set SHORTENER_DOMAINS
             then [\<lparr>name = ''URL Shortener Detected'', detected = True,
                    severity = 5 / 10,
                    explanation = ''This URL uses a shortening service which hides the actual destination. The real URL could be malicious.''\<rparr>]
             else []);
          subdomain_count =
            (if hostname \<noteq> [] then max 0 (int (count_char CHR ''.'' hostname) - 1) else 0);
          ind6 = ind5 @
            (if subdomain_count \<ge> 3
             then [\<lparr>name = ''Excessive Subdomains'', detected = True,
                    severity = min 1 (of_int subdomain_count * (2 / 10)),
                    explanation = ''This URL has '' @ str_nat (nat subdomain_count)
                      @ '' subdomains. Phishing sites often use many subdomains to mimic legitimate domains.''\<rparr>]
             else []);
          ind7 = ind6 @
            (if CHR ''@'' \<in> set url
             then [\<lparr>name = ''@ Symbol in URL'', detected = True,
                    severity = 9 / 10,
                    explanation = ''The '' @ [CHR 0x27] @ ''@'' @ [CHR 0x27]
                      @ '' symbol in a URL can redirect you to a different site than what's displayed. This is a common phishing technique.''\<rparr>]
             else []);
          ind8 = ind7 @
            (case brand_match hostname BRAND_TARGETS of
               Some (brand, variant) \<Rightarrow>
                 [\<lparr>name = ''Brand Impersonation'', detected = True,
                   severity = 95 / 100,
                   explanation = ''This domain appears to impersonate '' @ [CHR 0x27] @ brand
                     @ [CHR 0x27] @ '' using a lookalike name '' @ [CHR 0x27] @ variant
                     @ [CHR 0x27] @ ''. This is a common phishing technique.''\<rparr>]
             | None \<Rightarrow> []);
          path_lower = lower pth;
          found_path_keywords = filter (\<lambda>kw. contains path_lower kw) suspicious_paths;
          ind9 = ind8 @
            (if found_path_keywords \<noteq> []
                \<and> list_ex (\<lambda>ind. name ind \<in> set [''Suspicious Top-Level Domain'',
                                                 ''Brand Impersonation'', ''Missing HTTPS'']) ind8
             then [\<lparr>name = ''Suspicious Path Keywords'', detected = True,
                    severity = 6 / 10,
                    explanation = ''The URL path contains sensitive keywords (''
                      @ join '', '' found_path_keywords
                      @ '') combined with other suspicious signals.''\<rparr>]
             else []);
          ind10 = ind9 @
            (if contains url ''%2'' \<or> contains url ''%3'' \<or> contains pth ''..''
             then [\<lparr>name = ''URL Encoding / Obfuscation'', detected = True,
                    severity = 7 / 10,
                    explanation = ''This URL contains encoded or obfuscated characters, which can hide the true destination.''\<rparr>]
             else [])
      in ind10)"

section \<open>The domain, structural and language sub-scores (engine/scorer.py)\<close>

text \<open>
  The classifier's answer as \<open>predict_phishing_probability\<close> returns it. The scorer
  receives it or nothing (\<open>None\<close>, also for an empty dict: both are falsy).
\<close>

record ml_result =
  probability :: "real option"
  available :: bool
  ml_error :: "string option"

definition domain_indicator_names :: "string list" where
  "domain_indicator_names =
     [''IP Address Instead of Domain'', ''Suspicious Top-Level Domain'', ''Brand Impersonation'',
      ''Excessive Subdomains'', ''URL Shortener Detected'']"

text \<open>The value of \<open>blended\<close> in \<open>compute_domain_score\<close>, before it is rounded.\<close>

definition domain_blended :: "indicator list \<Rightarrow> ml_result option \<Rightarrow> real" where
  "domain_blended url_indicators ml =
     (let relevant = filter (\<lambda>ind. name ind \<in> set domain_indicator_names \<and> detected ind)
                       url_indicators;
          heuristic_score =
            (if relevant = [] then 0
             else
               let max_severity = Max (set (map severity relevant));
                   avg_severity = sum_list (map severity relevant) / of_nat (length relevant);
                   blended_severity = max_severity * (6 / 10) + avg_severity * (4 / 10);
                   count_boost = min 1 (5 / 10 + of_nat (length relevant) * (2 / 10))
               in blended_severity * 100 * count_boost)
      in case ml of
           None \<Rightarrow> heuristic_score
         | Some m \<Rightarrow>
             (if available m
              then (case probability m of
                      None \<Rightarrow> heuristic_score
                    | Some p \<Rightarrow> heuristic_score * (6 / 10) + (p * 100) * (4 / 10))
              else heuristic_score))"

definition compute_domain_score :: "indicator list \<Rightarrow> ml_result option \<Rightarrow> int" where
  "compute_domain_score url_indicators ml =
     clamp_score (py_round (domain_blended url_indicators ml))"

definition structural_names :: "string list" where
  "structural_names =
     [''Excessive URL Length'', ''@ Symbol in URL'', ''URL Encoding / Obfuscation'',
      ''Suspicious Path Keywords'', ''Missing HTTPS'']"

text \<open>The value of \<open>score\<close> in \<open>compute_structural_score\<close>, for a non-empty \<open>relevant\<close>.\<close>

definition structural_raw :: "indicator list \<Rightarrow> real" where
  "structural_raw relevant =
     (let max_severity = Max (set (map severity relevant));
          avg_severity = sum_list (map severity relevant) / of_nat (length relevant);
          blended_severity = max_severity * (6 / 10) + avg_severity * (4 / 10);
          count_boost = min 1 (5 / 10 + of_nat (length relevant) * (2 / 10))
      in blended_severity * 100 * count_boost)"

definition compute_structural_score :: "indicator list \<Rightarrow> int" where
  "compute_structural_score url_indicators =
     (let relevant = filter (\<lambda>ind. name ind \<in> set structural_names \<and> detected ind)
                       url_indicators
      in if relevant = [] then 0
         else clamp_score (py_round (structural_raw relevant)))"



section \<open>Education (engine/scorer.py)\<close>

record education_item =
  title :: string
  content :: string

definition education_map :: "(string \<times> education_item) list" where
  "education_map =
     [(''IP Address Instead of Domain'',
       \<lparr>title = ''Why IP addresses in URLs are suspicious'',
        content = ''Legitimate websites use domain names (like google.com) not raw IP addresses. If you see numbers like 192.168.1.1 in a URL, it is likely trying to bypass domain-based security filters.''\<rparr>),
      (''Suspicious Top-Level Domain'',
       \<lparr>title = ''Understanding domain extensions'',
        content = ''Domain extensions like .xyz, .tk, or .ml are inexpensive and commonly used for temporary phishing sites. Trusted sites typically use .com, .org, .gov, or country-specific domains.''\<rparr>),
      (''Brand Impersonation'',
       \<lparr>title = ''How to spot fake brand domains'',
        content = ''Phishers create domains that look like real brands (e.g., 'paypa1.com' instead of 'paypal.com'). Always check the domain spelling carefully before entering any information.''\<rparr>),
      (''Missing HTTPS'',
       \<lparr>title = ''Why HTTPS matters'',
        content = ''HTTPS encrypts your connection. If a site asks for login or payment info without HTTPS (no lock icon), your data could be intercepted. Never enter sensitive information on HTTP sites.''\<rparr>),
      (''Urgency Language Detected'',
       \<lparr>title = ''Recognizing pressure tactics'',
        content = ''Phishing messages create panic with phrases like 'Act now!' or 'Your account will be suspended.' Legitimate companies give you time to respond and never threaten immediate consequences via email.''\<rparr>),
      (''Request for Sensitive Information'',
       \<lparr>title = ''When to share personal information'',
        content = ''Banks and legitimate services never ask for passwords, credit card numbers, or SSNs via email. If a message asks for this, it is almost certainly a scam.''\<rparr>),
      (''URL Shortener Detected'',
       \<lparr>title = ''Hidden destinations behind short links'',
        content = ''URL shorteners (bit.ly, tinyurl) hide the real destination. Before clicking, use a URL expander tool to see where the link actually goes.''\<rparr>),
      (''Excessive URL Length'',
       \<lparr>title = ''Why long URLs can be suspicious'',
        content = ''Extremely long URLs often contain hidden parameters or encoded redirects designed to confuse you and bypass security tools.''\<rparr>),
      (''Generic Greeting'',
       \<lparr>title = ''Impersonal messages are a red flag'',
        content = ''Emails that start with 'Dear Customer' instead of your name are often mass-sent phishing attempts. Your bank and other services know your name.''\<rparr>),
      (''@ Symbol in URL'',
       \<lparr>title = ''The @ symbol trick in URLs'',
        content = ''An '@' in a URL tells the browser to ignore everything before it and go to what follows. So 'http://google.com@evil.com' actually takes you to evil.com.''\<rparr>)]"

text \<open>The closing tip for the label \<open>safe\<close>.\<close>

definition safe_tip :: education_item where
  "safe_tip =
     \<lparr>title = ''Good practice: Always verify before trusting'',
      content = ''Even though this appears safe, always verify the sender and URL before entering personal information. Bookmark important sites and access them directly.''\<rparr>"

text \<open>The closing tip for the labels \<open>suspicious\<close> and \<open>dangerous\<close>.\<close>

definition report_tip :: education_item where
  "report_tip =
     \<lparr>title = ''What to do with suspicious content'',
      content = ''Do not click any links or download attachments. If this claims to be from a company you use, go directly to their website by typing the address yourself. Report the suspicious content to the claimed organization.''\<rparr>"

definition generate_education :: "indicator list \<Rightarrow> string \<Rightarrow> education_item list" where
  "generate_education indicators label =
     (let detected_names = map name (filter detected indicators);
          education = List.map_filter (map_of education_map) detected_names
      in if label = ''safe'' then education @ [safe_tip]
         else if label \<in> set [''suspicious'', ''dangerous''] then education @ [report_tip]
         else education)"

section \<open>The URL scan (routers/scan.py)\<close>

text \<open>
  An entry of the response's indicator list. Its keys are \<open>name\<close>, \<open>severity\<close> and
  \<open>explanation\<close> in the source; the severity is a label here, not a number.
\<close>

record detected_indicator =
  d_name :: string
  d_severity :: string
  d_explanation :: string

text \<open>The loop of \<open>scan_url\<close> that builds the indicator list of the response.\<close>

definition url_detected_indicators :: "indicator list \<Rightarrow> detected_indicator list" where
  "url_detected_indicators url_indicators =
     map (\<lambda>ind.
            let severity_label =
                  (if severity ind \<ge> 7 / 10 then ''high''
                   else if severity ind \<ge> 4 / 10 then ''medium''
                   else ''low'')
            in \<lparr>d_name = name ind, d_severity = severity_label,
                d_explanation = explanation ind\<rparr>)
         (filter detected url_indicators)"



definition build_api_status :: "api_result list \<Rightarrow> (string \<times> string) list" where
  "build_api_status api_results =
     fold (\<lambda>result status.
             AList.update (api_name result)
               (if unavailable result = Some True then ''unavailable'' else ''available'') status)
          api_results []"

record sub_scores =
  domain :: int
  structural :: int
  language :: int
  api_reputation :: int

record 'i scan_result =
  overall_score :: int
  label :: string
  sub_scores :: sub_scores
  indicators :: "detected_indicator list"
  education :: "education_item list"
  api_status :: "(string \<times> string) list"
  ml_status :: string
  intel :: 'i
  scan_type :: string
  scanned_input :: string

text \<open>
  \<open>scan_url\<close>. Its two calls to the outside, \<open>check_all_apis\<close> (the reputation
  feeds) and \<open>gather_url_intel\<close> (WHOIS, SSL, geolocation), are arguments; the
  classifier is switched off in the source by a constant \<open>ml_result\<close>.
\<close>

definition scan_url :: "(string \<Rightarrow> api_result list) \<Rightarrow> (string \<Rightarrow> 'i) \<Rightarrow> string \<Rightarrow> 'i scan_result" where
  "scan_url check_all_apis gather_url_intel url =
     (let url_indicators = analyze_url_heuristics url;
          ml = Some \<lparr>probability = None, available = False, ml_error = None\<rparr>;
          api_results = check_all_apis url;
          domain_score = compute_domain_score url_indicators ml;
          structural_score = compute_structural_score url_indicators;
          language_score = 0;
          (api_score, api_available) = compute_api_score api_results;
          (overall, lab) = compute_overall_score domain_score structural_score language_score
                             api_score api_available;
          edu = generate_education url_indicators lab;
          detected_indicators = url_detected_indicators url_indicators;
          intl = gather_url_intel url
      in \<lparr>overall_score = overall, label = lab,
          sub_scores = \<lparr>domain = domain_score, structural = structural_score,
                         language = language_score, api_reputation = api_score\<rparr>,
          indicators = detected_indicators, education = edu,
          api_status = build_api_status api_results, ml_status = ''disabled'',
          intel = intl, scan_type = ''url'', scanned_input = url\<rparr>)"

section \<open>The classifier adapter (engine/ml_model.py)\<close>

text \<open>
  The module's three globals \<open>_model\<close>, \<open>_model_loaded\<close> and \<open>_model_error\<close>, and a
  counter that is not in the source: \<open>load_attempts\<close> counts how often \<open>_load_model\<close>
  went past its guard \<open>if _model_loaded: return\<close>, that is, how often it looked for
  the model file.
\<close>

record 'm model_state =
  g_model :: "'m option"
  g_model_loaded :: bool
  g_model_error :: "string option"
  load_attempts :: nat

definition initial_state :: "'m model_state" where
  "initial_state =
     \<lparr>g_model = None, g_model_loaded = False, g_model_error = None, load_attempts = 0\<rparr>"

text \<open>
  What a call finds outside the module: whether the model file exists, what
  \<open>joblib.load\<close> does (it raises, \<open>Inl\<close> of the message, or returns an object, which
  may be Python's \<open>None\<close>), and what feature extraction and \<open>predict_proba\<close> do for a
  model and a URL (they raise, or yield the phishing probability).
\<close>

record 'm environment =
  MODEL_PATH :: string
  path_exists :: bool
  joblib_load :: "string + 'm option"
  predict_proba :: "'m \<Rightarrow> string \<Rightarrow> string + real"

definition load_model :: "'m environment \<Rightarrow> 'm model_state \<Rightarrow> 'm model_state" where
  "load_model env st =
     (if g_model_loaded st then st
      else if \<not> path_exists env
      then st\<lparr>g_model_error :=
                 Some (''Model file not found at '' @ MODEL_PATH env
                       @ ''. Run training/train_model.py first.''),
               g_model_loaded := True, load_attempts := load_attempts st + 1\<rparr>
      else
        (case joblib_load env of
           Inr m \<Rightarrow> st\<lparr>g_model := m, g_model_loaded := True,
                       load_attempts := load_attempts st + 1\<rparr>
         | Inl e \<Rightarrow> st\<lparr>g_model_error := Some (''Failed to load model: '' @ e),
                       g_model_loaded := True, load_attempts := load_attempts st + 1\<rparr>))"

text \<open>\<open>round(x, 4)\<close>.\<close>

definition round4 :: "real \<Rightarrow> real" where
  "round4 x = of_int (py_round (x * 10000)) / 10000"

definition predict_phishing_probability ::
    "'m environment \<Rightarrow> string \<Rightarrow> 'm model_state \<Rightarrow> ml_result \<times> 'm model_state" where
  "predict_phishing_probability env url st =
     (let st' = load_model env st
      in case g_model st' of
           None \<Rightarrow>
             (\<lparr>probability = None, available = False, ml_error = g_model_error st'\<rparr>, st')
         | Some m \<Rightarrow>
             (case predict_proba env m url of
                Inr phishing_prob \<Rightarrow>
                  (\<lparr>probability = Some (round4 phishing_prob), available = True,
                    ml_error = None\<rparr>, st')
              | Inl e \<Rightarrow>
                  (\<lparr>probability = None, available = False,
                    ml_error = Some (''Prediction failed: '' @ e)\<rparr>, st')))"

text \<open>A process: calls one after the other, each with what it finds outside.\<close>

fun run_calls ::
    "('m environment \<times> string) list \<Rightarrow> 'm model_state \<Rightarrow> ml_result list \<times> 'm model_state" where
  "run_calls [] st = ([], st)"
| "run_calls ((env, url) # calls) st =
     (let (r, st1) = predict_phishing_probability env url st;
          (rs, st2) = run_calls calls st1
      in (r # rs, st2))"

section \<open>Request validation (routers/scan.py, routers/bulk.py)\<close>





section \<open>The bulk scan (routers/bulk.py)\<close>

text \<open>
  An element of \<open>results\<close>: the dict \<open>scan_url\<close> returned, or the dict the handler of
  the exception builds from the URL and the exception's message.
\<close>

datatype 'i bulk_item = Scanned "'i scan_result" | ScanError string string

fun item_overall_score :: "'i bulk_item \<Rightarrow> int option" where
  "item_overall_score (Scanned r) = Some (overall_score r)"
| "item_overall_score (ScanError url e) = None"

fun item_label :: "'i bulk_item \<Rightarrow> string" where
  "item_label (Scanned r) = label r"
| "item_label (ScanError url e) = ''error''"

fun item_error :: "'i bulk_item \<Rightarrow> string option" where
  "item_error (Scanned r) = None"
| "item_error (ScanError url e) = Some e"

fun item_scanned_input :: "'i bulk_item \<Rightarrow> string" where
  "item_scanned_input (Scanned r) = scanned_input r"
| "item_scanned_input (ScanError url e) = url"

record distribution =
  safe :: nat
  suspicious :: nat
  dangerous :: nat

record summary =
  total :: nat
  scanned :: nat
  errors :: nat
  avg_score :: int
  highest_risk :: int
  distribution :: distribution

record 'i bulk_response =
  summary :: summary
  results :: "'i bulk_item list"

text \<open>
  The body of the \<open>try\<close>, \<open>UrlScanRequest(url=url)\<close> followed by \<open>scan_url\<close>, is the
  argument \<open>scan_one\<close>: it reads and changes the world outside (\<open>'w\<close>: the network, the
  feeds) and either raises an exception, \<open>Inl\<close> of its message, or returns a result.
\<close>

fun scan_bulk_loop ::
    "(string \<Rightarrow> 'w \<Rightarrow> (string + 'i scan_result) \<times> 'w) \<Rightarrow> string list \<Rightarrow> 'w
      \<Rightarrow> 'i bulk_item list \<times> 'w" where
  "scan_bulk_loop scan_one [] w = ([], w)"
| "scan_bulk_loop scan_one (url # urls) w =
     (let (outcome, w1) = scan_one url w;
          item = (case outcome of Inr result \<Rightarrow> Scanned result | Inl e \<Rightarrow> ScanError url e);
          (items, w2) = scan_bulk_loop scan_one urls w1
      in (item # items, w2))"

definition summarize :: "'i bulk_item list \<Rightarrow> summary" where
  "summarize rs =
     (let valid_results = filter (\<lambda>r. item_overall_score r \<noteq> None) rs
      in \<lparr>total = length rs,
          scanned = length valid_results,
          errors = length rs - length valid_results,
          avg_score =
            (if valid_results \<noteq> []
             then py_round (of_int (sum_list (map (\<lambda>r. the (item_overall_score r)) valid_results))
                            / of_nat (length valid_results))
             else 0),
          highest_risk =
            (if valid_results \<noteq> []
             then Max (set (map (\<lambda>r. the (item_overall_score r)) valid_results))
             else 0),
          distribution =
            \<lparr>safe = length (filter (\<lambda>r. item_label r = ''safe'') valid_results),
             suspicious = length (filter (\<lambda>r. item_label r = ''suspicious'') valid_results),
             dangerous = length (filter (\<lambda>r. item_label r = ''dangerous'') valid_results)\<rparr>\<rparr>)"

definition scan_bulk ::
    "(string \<Rightarrow> 'w \<Rightarrow> (string + 'i scan_result) \<times> 'w) \<Rightarrow> string list \<Rightarrow> 'w
      \<Rightarrow> 'i bulk_response \<times> 'w" where
  "scan_bulk scan_one urls w =
     (let (rs, w') = scan_bulk_loop scan_one urls w
      in (\<lparr>summary = summarize rs, results = rs\<rparr>, w'))"



section \<open>The vocabulary of the specification\<close>



definition heuristic_score :: "indicator list \<Rightarrow> real" where
  "heuristic_score fired =
     (if fired = [] then 0
      else (6 / 10 * Max (severity ` set fired)
            + 4 / 10 * (sum_list (map severity fired) / of_nat (length fired)))
           * 100 * min 1 (5 / 10 + 2 / 10 * of_nat (length fired)))"




text \<open>Two feeds without a configured key, as \<open>api_checker.py\<close> reports them.\<close>

definition unavailable_feeds :: "api_result list" where
  "unavailable_feeds =
     [\<lparr>api_name = ''google_safe_browsing'', is_threat = False, confidence = 0,
       unavailable = Some True, api_error = Some ''API key not configured''\<rparr>,
      \<lparr>api_name = ''virustotal'', is_threat = False, confidence = 0,
       unavailable = Some True, api_error = Some ''API key not configured''\<rparr>]"









text \<open>
  A failed load leaves the module loaded without a model. \<open>failure_result\<close> is the
  answer of the adapter without a probability. \<open>consistent\<close> relates the counter to
  the flag: one look at the file system once loaded, none before.
\<close>

definition load_failed :: "'m model_state \<Rightarrow> bool" where
  "load_failed st = (g_model_loaded st \<and> g_model st = None)"

definition failure_result :: "string option \<Rightarrow> ml_result" where
  "failure_result e = \<lparr>probability = None, available = False, ml_error = e\<rparr>"

definition consistent :: "'m model_state \<Rightarrow> bool" where
  "consistent st = (load_attempts st = (if g_model_loaded st then 1 else 0))"

text \<open>
  Three surroundings: no model file; a file that \<open>joblib.load\<close> cannot read; and a
  good model whose prediction raises for the empty URL.
\<close>

definition absent_env :: "nat environment" where
  "absent_env =
     \<lparr>MODEL_PATH = ''models/phishing_model.joblib'', path_exists = False,
      joblib_load = Inl ''unused'', predict_proba = (\<lambda>m url. Inr (1 / 2))\<rparr>"

definition corrupt_env :: "nat environment" where
  "corrupt_env =
     \<lparr>MODEL_PATH = ''models/phishing_model.joblib'', path_exists = True,
      joblib_load = Inl ''invalid load key'', predict_proba = (\<lambda>m url. Inr (1 / 2))\<rparr>"

definition good_env :: "nat environment" where
  "good_env =
     \<lparr>MODEL_PATH = ''models/phishing_model.joblib'', path_exists = True,
      joblib_load = Inr (Some 7),
      predict_proba = (\<lambda>m url. if url = [] then Inl ''empty URL'' else Inr (1 / 2))\<rparr>"

text \<open>
  The bulk scan as the specification describes it: what the scan of each URL gives, in
  order, each scan starting in the world its predecessor left; the item an outcome is
  captured as; the results that were scored; and the statistics over them.
\<close>

fun scan_outcomes ::
    "(string \<Rightarrow> 'w \<Rightarrow> (string + 'i scan_result) \<times> 'w) \<Rightarrow> string list \<Rightarrow> 'w
      \<Rightarrow> (string + 'i scan_result) list" where
  "scan_outcomes scan_one [] w = []"
| "scan_outcomes scan_one (url # urls) w =
     fst (scan_one url w) # scan_outcomes scan_one urls (snd (scan_one url w))"

definition captured :: "string \<times> (string + 'i scan_result) \<Rightarrow> 'i bulk_item" where
  "captured p = (case snd p of Inr r \<Rightarrow> Scanned r | Inl e \<Rightarrow> ScanError (fst p) e)"

fun scored :: "(string + 'i scan_result) list \<Rightarrow> 'i scan_result list" where
  "scored [] = []"
| "scored (Inr r # os) = r # scored os"
| "scored (Inl e # os) = scored os"

definition summary_of :: "nat \<Rightarrow> 'i scan_result list \<Rightarrow> summary" where
  "summary_of n rs =
     \<lparr>total = n, scanned = length rs, errors = n - length rs,
      avg_score = (if rs = [] then 0
                   else py_round (of_int (sum_list (map overall_score rs)) / of_nat (length rs))),
      highest_risk = (if rs = [] then 0 else Max (overall_score ` set rs)),
      distribution =
        \<lparr>safe = length (filter (\<lambda>r. label r = ''safe'') rs),
         suspicious = length (filter (\<lambda>r. label r = ''suspicious'') rs),
         dangerous = length (filter (\<lambda>r. label r = ''dangerous'') rs)\<rparr>\<rparr>"

text \<open>
  A scanner for the examples: it counts its calls in the world, fails on one input and
  scores the others. An email scan for the examples counts its calls too.
\<close>

definition example_result :: "string \<Rightarrow> int \<Rightarrow> string \<Rightarrow> unit scan_result" where
  "example_result url score lab =
     \<lparr>overall_score = score, label = lab,
      sub_scores = \<lparr>domain = score, structural = score, language = 0, api_reputation = 0\<rparr>,
      indicators = [], education = [], api_status = [], ml_status = ''disabled'',
      intel = (), scan_type = ''url'', scanned_input = url\<rparr>"

definition example_scan :: "string \<Rightarrow> nat \<Rightarrow> (string + unit scan_result) \<times> nat" where
  "example_scan url w =
     (if url = ''not a url'' then (Inl ''Invalid URL format'', Suc w)
      else if url = ''https://example.com'' then (Inr (example_result url 0 ''safe''), Suc w)
      else (Inr (example_result url 43 ''suspicious''), Suc w))"


section \<open>Properties of the overall score\<close>

lemma clamp_score_range: "0 \<le> clamp_score r \<and> clamp_score r \<le> 100"
  by (simp add: clamp_score_def)


section \<open>Properties of the reputation sub-score\<close>

lemma available_results_eq:
  "filter (\<lambda>r. \<not> (case unavailable r of None \<Rightarrow> True | Some u \<Rightarrow> u)) rs = available_feeds rs"
  unfolding available_feeds_def feed_available_def
  by (rule filter_cong) (auto split: option.splits)




section \<open>Two analysed addresses\<close>

lemma ip_url_analysis:
  "analyze_url_heuristics ''http://192.168.1.1/banking/login'' =
     [\<lparr>name = ''IP Address Instead of Domain'', detected = True, severity = 85 / 100,
       explanation = ''This URL uses an IP address instead of a domain name. Legitimate websites almost always use domain names.''\<rparr>,
      \<lparr>name = ''Missing HTTPS'', detected = True, severity = 6 / 10,
       explanation = ''This URL does not use HTTPS encryption. Most legitimate sites use HTTPS to protect your data.''\<rparr>,
      \<lparr>name = ''Suspicious Path Keywords'', detected = True, severity = 6 / 10,
       explanation = ''The URL path contains sensitive keywords (login, banking) combined with other suspicious signals.''\<rparr>]"
  by code_simp


section \<open>Properties of the domain sub-score\<close>








section \<open>The scan of an address with an IP literal\<close>

lemma api_score_unavailable:
  "available_feeds rs = [] \<Longrightarrow> compute_api_score rs = (0, False)"
  by (simp add: compute_api_score_def available_results_eq)

lemma ip_url_domain:
  "compute_domain_score (analyze_url_heuristics ''http://192.168.1.1/banking/login'')
     (Some \<lparr>probability = None, available = False, ml_error = None\<rparr>) = 60"
  by (simp add: ip_url_analysis compute_domain_score_def domain_blended_def
      domain_indicator_names_def py_round_def clamp_score_def Let_def)

lemma ip_url_structural:
  "compute_structural_score (analyze_url_heuristics ''http://192.168.1.1/banking/login'') = 54"
  by (simp add: ip_url_analysis compute_structural_score_def structural_raw_def
      structural_names_def py_round_def clamp_score_def Let_def)

lemma overall_60_54: "compute_overall_score 60 54 0 0 False = (43, ''suspicious'')"
  by (simp add: compute_overall_score_def overall_raw_def WEIGHTS_NO_API_def py_round_def
      clamp_score_def classify_label_def SAFE_THRESHOLD_def SUSPICIOUS_THRESHOLD_def Let_def)

lemma ip_url_scan:
  assumes "available_feeds (check_all_apis ''http://192.168.1.1/banking/login'') = []"
  shows "overall_score (scan_url check_all_apis gather_url_intel
           ''http://192.168.1.1/banking/login'') = 43"
    and "label (scan_url check_all_apis gather_url_intel
           ''http://192.168.1.1/banking/login'') = ''suspicious''"
    and "sub_scores (scan_url check_all_apis gather_url_intel
           ''http://192.168.1.1/banking/login'') =
           \<lparr>domain = 60, structural = 54, language = 0, api_reputation = 0\<rparr>"
  using api_score_unavailable [OF assms]
  by (simp_all add: scan_url_def ip_url_domain ip_url_structural overall_60_54 Let_def)

text \<open>
  C4, as stated, fails: with no reachable feed the scan of
  \<open>http://192.168.1.1/banking/login\<close> is labelled suspicious, not dangerous.
\<close>

theorem ip_url_label_counterexample:
  "label (scan_url (\<lambda>url. unavailable_feeds) (\<lambda>url. ()) ''http://192.168.1.1/banking/login'')
     = ''suspicious''
   \<and> label (scan_url (\<lambda>url. unavailable_feeds) (\<lambda>url. ()) ''http://192.168.1.1/banking/login'')
     \<noteq> ''dangerous''"
proof -
  have "available_feeds ((\<lambda>url. unavailable_feeds) ''http://192.168.1.1/banking/login'') = []"
    by (simp add: unavailable_feeds_def available_feeds_def feed_available_def)
  then show ?thesis
    by (simp add: ip_url_scan(2))
qed

text \<open>
  C4, amended. For \<open>http://192.168.1.1/banking/login\<close> the heuristic analysis fires
  the IP literal (0.85), the missing HTTPS (0.6) and the suspicious path keywords (0.6);
  with the classifier switched off and no available reputation feed the overall score
  is 43 and the label is suspicious under the default thresholds.
\<close>

theorem ip_url_scan_suspicious:
  "map (\<lambda>i. (name i, detected i, severity i))
     (analyze_url_heuristics ''http://192.168.1.1/banking/login'') =
   [(''IP Address Instead of Domain'', True, 85 / 100), (''Missing HTTPS'', True, 6 / 10),
    (''Suspicious Path Keywords'', True, 6 / 10)]
   \<and> (available_feeds (check_all_apis ''http://192.168.1.1/banking/login'') = []
      \<longrightarrow> overall_score (scan_url check_all_apis gather_url_intel
                ''http://192.168.1.1/banking/login'') = 43
          \<and> label (scan_url check_all_apis gather_url_intel
                ''http://192.168.1.1/banking/login'') = ''suspicious'')"
  using ip_url_scan [of check_all_apis gather_url_intel]
  by (simp add: ip_url_analysis)

text \<open>The scan with two feeds that have no key configured.\<close>

theorem ip_url_scan_suspicious_witness:
  "available_feeds unavailable_feeds = []
   \<and> overall_score (scan_url (\<lambda>url. unavailable_feeds) (\<lambda>url. ())
        ''http://192.168.1.1/banking/login'') = 43
   \<and> label (scan_url (\<lambda>url. unavailable_feeds) (\<lambda>url. ())
        ''http://192.168.1.1/banking/login'') = ''suspicious''"
proof -
  have h: "available_feeds unavailable_feeds = []"
    by (simp add: unavailable_feeds_def available_feeds_def feed_available_def)
  show ?thesis
    using h ip_url_scan_suspicious [of "\<lambda>url. unavailable_feeds" "\<lambda>url. ()"] by simp
qed

section \<open>Rounding\<close>







section \<open>Properties of the education\<close>










section \<open>Properties of the classifier adapter\<close>

lemma load_model_loaded: "g_model_loaded (load_model env st)"
  by (simp add: load_model_def split: sum.splits)

lemma load_model_cached: "g_model_loaded st \<Longrightarrow> load_model env st = st"
  by (simp add: load_model_def)

lemma predict_state: "snd (predict_phishing_probability env url st) = load_model env st"
  by (simp add: predict_phishing_probability_def Let_def split: option.splits sum.splits)

lemma predict_cached_failure:
  "load_failed st \<Longrightarrow>
   predict_phishing_probability env url st = (failure_result (g_model_error st), st)"
  by (simp add: predict_phishing_probability_def load_failed_def load_model_cached
      failure_result_def)

lemma load_model_consistent: "consistent st \<Longrightarrow> consistent (load_model env st)"
  by (auto simp: consistent_def load_model_def split: sum.splits)

lemma run_calls_consistent: "consistent st \<Longrightarrow> consistent (snd (run_calls calls st))"
proof (induction calls arbitrary: st)
  case Nil
  then show ?case by simp
next
  case (Cons c calls)
  obtain env url where c: "c = (env, url)"
    by (cases c)
  have "consistent (snd (predict_phishing_probability env url st))"
    using Cons.prems by (simp add: predict_state load_model_consistent)
  from Cons.IH [OF this] show ?case
    by (simp add: c split_beta)
qed

lemma run_calls_cached_failure:
  "load_failed st \<Longrightarrow>
   run_calls calls st = (replicate (length calls) (failure_result (g_model_error st)), st)"
proof (induction calls)
  case Nil
  then show ?case by simp
next
  case (Cons c calls)
  obtain env url where c: "c = (env, url)"
    by (cases c)
  from Cons show ?case
    by (simp add: c predict_cached_failure)
qed

lemma first_call_absent:
  "\<not> path_exists env \<Longrightarrow>
   predict_phishing_probability env url initial_state =
     (failure_result (Some (''Model file not found at '' @ MODEL_PATH env
                            @ ''. Run training/train_model.py first.'')),
      \<lparr>g_model = None, g_model_loaded = True,
       g_model_error = Some (''Model file not found at '' @ MODEL_PATH env
                            @ ''. Run training/train_model.py first.''),
       load_attempts = 1\<rparr>)"
  by (simp add: predict_phishing_probability_def load_model_def initial_state_def
      failure_result_def)

lemma first_call_corrupt:
  "path_exists env \<Longrightarrow> joblib_load env = Inl e \<Longrightarrow>
   predict_phishing_probability env url initial_state =
     (failure_result (Some (''Failed to load model: '' @ e)),
      \<lparr>g_model = None, g_model_loaded = True,
       g_model_error = Some (''Failed to load model: '' @ e), load_attempts = 1\<rparr>)"
  by (simp add: predict_phishing_probability_def load_model_def initial_state_def
      failure_result_def)

lemma predict_raises:
  "g_model (load_model env st) = Some m \<Longrightarrow> predict_proba env m url = Inl e \<Longrightarrow>
   fst (predict_phishing_probability env url st) =
     failure_result (Some (''Prediction failed: '' @ e))"
  by (simp add: predict_phishing_probability_def failure_result_def Let_def)

text \<open>
  C7. Calls made one after the other, from the start of the process. A missing model
  file, a load that raises and a prediction that raises each give an answer with no
  probability, \<open>available\<close> false and a message; an exception is a value here and
  every path of the function returns. After a first call whose load failed, every
  later call, whatever it finds outside, returns that same answer and the file system
  has been looked at once; in general a call whose state records a failed load returns
  the recorded error and leaves the state as it is, every call leaves the module
  loaded, and no sequence of calls looks for the file more than once.
\<close>

theorem predict_never_retries:
  "(\<not> path_exists env \<longrightarrow>
      fst (predict_phishing_probability env url initial_state) =
        failure_result (Some (''Model file not found at '' @ MODEL_PATH env
                              @ ''. Run training/train_model.py first.''))
      \<and> load_failed (snd (predict_phishing_probability env url initial_state)))
   \<and> (path_exists env \<and> joblib_load env = Inl e \<longrightarrow>
      fst (predict_phishing_probability env url initial_state) =
        failure_result (Some (''Failed to load model: '' @ e))
      \<and> load_failed (snd (predict_phishing_probability env url initial_state)))
   \<and> (g_model (load_model env st) = Some m \<and> predict_proba env m url = Inl e \<longrightarrow>
      fst (predict_phishing_probability env url st) =
        failure_result (Some (''Prediction failed: '' @ e)))
   \<and> ((\<not> path_exists env \<or> joblib_load env = Inl e) \<longrightarrow>
      fst (run_calls ((env, url) # calls) initial_state) =
        replicate (Suc (length calls))
          (fst (predict_phishing_probability env url initial_state))
      \<and> load_attempts (snd (run_calls ((env, url) # calls) initial_state)) = 1)
   \<and> (load_failed st \<longrightarrow>
      predict_phishing_probability env' url' st = (failure_result (g_model_error st), st))
   \<and> g_model_loaded (snd (predict_phishing_probability env url st))
   \<and> load_attempts (snd (run_calls calls initial_state)) \<le> 1"
proof -
  have absent: "fst (predict_phishing_probability env url initial_state) =
        failure_result (Some (''Model file not found at '' @ MODEL_PATH env
                              @ ''. Run training/train_model.py first.''))
      \<and> load_failed (snd (predict_phishing_probability env url initial_state))"
    if "\<not> path_exists env"
    using first_call_absent [OF that, of url] by (simp add: load_failed_def)
  have corrupt: "fst (predict_phishing_probability env url initial_state) =
        failure_result (Some (''Failed to load model: '' @ e))
      \<and> load_failed (snd (predict_phishing_probability env url initial_state))"
    if "path_exists env" "joblib_load env = Inl e"
    using first_call_corrupt [OF that, of url] by (simp add: load_failed_def)
  have later: "fst (run_calls ((env, url) # calls) initial_state) =
        replicate (Suc (length calls))
          (fst (predict_phishing_probability env url initial_state))
      \<and> load_attempts (snd (run_calls ((env, url) # calls) initial_state)) = 1"
    if "\<not> path_exists env \<or> joblib_load env = Inl e"
  proof -
    obtain r st1 where p: "predict_phishing_probability env url initial_state = (r, st1)"
      by (cases "predict_phishing_probability env url initial_state")
    from that have "load_failed st1 \<and> r = failure_result (g_model_error st1)
        \<and> load_attempts st1 = 1"
    proof
      assume "\<not> path_exists env"
      from first_call_absent [OF this, of url] p show ?thesis
        by (auto simp: load_failed_def)
    next
      assume l: "joblib_load env = Inl e"
      show ?thesis
      proof (cases "path_exists env")
        case True
        from first_call_corrupt [OF True l, of url] p show ?thesis
          by (auto simp: load_failed_def)
      next
        case False
        from first_call_absent [OF False, of url] p show ?thesis
          by (auto simp: load_failed_def)
      qed
    qed
    then show ?thesis
      by (simp add: p run_calls_cached_failure)
  qed
  have init: "consistent (initial_state :: 'a model_state)"
    by (simp add: consistent_def initial_state_def)
  have once: "load_attempts (snd (run_calls calls (initial_state :: 'a model_state))) \<le> 1"
    using run_calls_consistent [OF init, of calls] by (simp add: consistent_def split: if_splits)
  from absent corrupt later once show ?thesis
    by (simp add: predict_raises predict_cached_failure predict_state load_model_loaded)
qed

text \<open>
  A process whose first call finds no file and whose second call would find a good
  one; a first call with an unreadable file; a first call whose prediction raises.
\<close>

theorem predict_never_retries_witness:
  "fst (run_calls [(absent_env, ''http://a.example/''), (good_env, ''http://b.example/'')]
         initial_state)
     = [failure_result (Some ''Model file not found at models/phishing_model.joblib. Run training/train_model.py first.''),
        failure_result (Some ''Model file not found at models/phishing_model.joblib. Run training/train_model.py first.'')]
   \<and> load_attempts (snd (run_calls
         [(absent_env, ''http://a.example/''), (good_env, ''http://b.example/'')]
         initial_state)) = 1
   \<and> fst (predict_phishing_probability corrupt_env ''http://a.example/'' initial_state)
     = failure_result (Some ''Failed to load model: invalid load key'')
   \<and> fst (predict_phishing_probability good_env [] initial_state)
     = failure_result (Some ''Prediction failed: empty URL'')"
proof -
  have a: "\<not> path_exists absent_env"
    by (simp add: absent_env_def)
  have c: "path_exists corrupt_env \<and> joblib_load corrupt_env = Inl ''invalid load key''"
    by (simp add: corrupt_env_def)
  have g: "g_model (load_model good_env initial_state) = Some 7
      \<and> predict_proba good_env 7 [] = Inl ''empty URL''"
    by (simp add: good_env_def load_model_def initial_state_def)
  from a have "fst (run_calls [(absent_env, ''http://a.example/''), (good_env, ''http://b.example/'')]
         initial_state)
     = [failure_result (Some ''Model file not found at models/phishing_model.joblib. Run training/train_model.py first.''),
        failure_result (Some ''Model file not found at models/phishing_model.joblib. Run training/train_model.py first.'')]
   \<and> load_attempts (snd (run_calls
         [(absent_env, ''http://a.example/''), (good_env, ''http://b.example/'')]
         initial_state)) = 1"
    using predict_never_retries
      [where env = absent_env and url = "''http://a.example/''"
         and calls = "[(good_env, ''http://b.example/'')]"]
    by (simp add: absent_env_def)
  moreover from c have "fst (predict_phishing_probability corrupt_env ''http://a.example/'' initial_state)
     = failure_result (Some ''Failed to load model: invalid load key'')"
    using predict_never_retries
      [where env = corrupt_env and url = "''http://a.example/''" and e = "''invalid load key''"]
    by simp
  moreover from g have "fst (predict_phishing_probability good_env [] initial_state)
     = failure_result (Some ''Prediction failed: empty URL'')"
    using predict_never_retries
      [where env = good_env and url = "[]" and e = "''empty URL''" and m = 7
         and st = initial_state]
    by simp
  ultimately show ?thesis
    by blast
qed

section \<open>Properties of the request validation\<close>



section \<open>Properties of the bulk scan\<close>

lemma loop_fst:
  "fst (scan_bulk_loop scan_one urls w) = map captured (zip urls (scan_outcomes scan_one urls w))"
  by (induction urls arbitrary: w) (simp_all add: split_beta captured_def split: sum.splits)

lemma outcomes_length: "length (scan_outcomes scan_one urls w) = length urls"
  by (induction urls arbitrary: w) simp_all

lemma valid_captured:
  "length os = length urls \<Longrightarrow>
   filter (\<lambda>r. item_overall_score r \<noteq> None) (map captured (zip urls os)) = map Scanned (scored os)"
proof (induction urls arbitrary: os)
  case Nil
  then show ?case by simp
next
  case (Cons u urls)
  then obtain x xs where os: "os = x # xs" "length xs = length urls"
    by (cases os) auto
  with Cons.IH [of xs] show ?case
    by (cases x) (simp_all add: captured_def)
qed

lemma summarize_valid:
  assumes "filter (\<lambda>r. item_overall_score r \<noteq> None) rs = map Scanned xs"
  shows "summarize rs = summary_of (length rs) xs"
proof -
  have score: "map (\<lambda>r. the (item_overall_score r)) (map Scanned xs) = map overall_score xs"
    by simp
  have lab: "length (filter (\<lambda>r. item_label r = l) (map Scanned xs))
      = length (filter (\<lambda>r. label r = l) xs)" for l
    by (simp add: filter_map comp_def)
  have nil: "map Scanned xs = [] \<longleftrightarrow> xs = []"
    by simp
  have mx: "set (map overall_score xs) = overall_score ` set xs"
    by simp
  show ?thesis
    unfolding summarize_def Let_def assms score lab nil summary_of_def mx
    by simp
qed

lemma summarize_scanned:
  "summarize (map captured (zip urls os)) = summary_of (length urls) (scored os)"
  if "length os = length urls"
  using summarize_valid [OF valid_captured [OF that]] that by simp

lemma error_item:
  "k < length urls \<Longrightarrow> length os = length urls \<Longrightarrow> os ! k = Inl e \<Longrightarrow>
   map captured (zip urls os) ! k = ScanError (urls ! k) e"
  by (simp add: captured_def)

text \<open>
  C9. \<open>scan_bulk\<close> returns one item for every URL, in order: the result of its
  scan, or, when the scan raised, an item with the label "error", no overall score, the
  message and the URL; the URLs after a failing one are scanned all the same, each in
  the world its predecessor left. The summary counts all URLs in \<open>total\<close>, and its
  scanned count, errors, average score, highest score and the distribution over safe,
  suspicious and dangerous are those of the scored results alone.
\<close>

theorem scan_bulk_isolates_failures:
  "results (fst (scan_bulk scan_one urls w))
     = map captured (zip urls (scan_outcomes scan_one urls w))
   \<and> length (results (fst (scan_bulk scan_one urls w))) = length urls
   \<and> length (scan_outcomes scan_one urls w) = length urls
   \<and> (\<forall>k < length urls. \<forall>e. scan_outcomes scan_one urls w ! k = Inl e \<longrightarrow>
         item_label (results (fst (scan_bulk scan_one urls w)) ! k) = ''error''
         \<and> item_overall_score (results (fst (scan_bulk scan_one urls w)) ! k) = None
         \<and> item_error (results (fst (scan_bulk scan_one urls w)) ! k) = Some e
         \<and> item_scanned_input (results (fst (scan_bulk scan_one urls w)) ! k) = urls ! k)
   \<and> summary (fst (scan_bulk scan_one urls w))
     = summary_of (length urls) (scored (scan_outcomes scan_one urls w))"
proof -
  have res: "results (fst (scan_bulk scan_one urls w))
     = map captured (zip urls (scan_outcomes scan_one urls w))"
    by (simp add: scan_bulk_def split_beta loop_fst)
  have sm: "summary (fst (scan_bulk scan_one urls w))
     = summary_of (length urls) (scored (scan_outcomes scan_one urls w))"
    by (simp add: scan_bulk_def split_beta loop_fst summarize_scanned outcomes_length)
  have err: "item_label (results (fst (scan_bulk scan_one urls w)) ! k) = ''error''
         \<and> item_overall_score (results (fst (scan_bulk scan_one urls w)) ! k) = None
         \<and> item_error (results (fst (scan_bulk scan_one urls w)) ! k) = Some e
         \<and> item_scanned_input (results (fst (scan_bulk scan_one urls w)) ! k) = urls ! k"
    if "k < length urls" "scan_outcomes scan_one urls w ! k = Inl e" for k e
    using error_item [OF that(1) outcomes_length that(2)] by (simp add: res)
  from res sm err show ?thesis
    by (simp add: outcomes_length)
qed

text \<open>
  Three URLs of which the second fails: two are scored, 0 and 43, with the average
  21.5 rounded to 22.
\<close>

theorem scan_bulk_isolates_failures_witness:
  "map item_label (results (fst (scan_bulk example_scan
       [''https://example.com'', ''not a url'', ''http://192.168.1.1/banking/login''] 0)))
     = [''safe'', ''error'', ''suspicious'']
   \<and> results (fst (scan_bulk example_scan
       [''https://example.com'', ''not a url'', ''http://192.168.1.1/banking/login''] 0)) ! 1
     = ScanError ''not a url'' ''Invalid URL format''
   \<and> summary (fst (scan_bulk example_scan
       [''https://example.com'', ''not a url'', ''http://192.168.1.1/banking/login''] 0))
     = \<lparr>total = 3, scanned = 2, errors = 1, avg_score = 22, highest_risk = 43,
        distribution = \<lparr>safe = 1, suspicious = 1, dangerous = 0\<rparr>\<rparr>"
  using scan_bulk_isolates_failures
    [of example_scan
      "[''https://example.com'', ''not a url'', ''http://192.168.1.1/banking/login'']" 0]
  by (simp add: example_scan_def example_result_def captured_def summary_of_def py_round_def)

section \<open>Severity labels of the response\<close>






end
